theory Spec2Isabelle
  imports Complex_Main
begin

section \<open>Python values\<close>

text \<open>
  The values \<^verbatim>\<open>json.loads\<close> produces and \<^verbatim>\<open>json.dumps\<close> consumes. \<open>JNull\<close> is
  Python's \<^verbatim>\<open>None\<close>; a \<open>JObj\<close> is a \<^verbatim>\<open>dict\<close> with string keys, kept as an
  association list in insertion order. A float is kept as the real it denotes (NaN and
  the infinities, which are truthy like every non-zero float, are not represented).
\<close>

datatype json =
    JNull
  | JBool bool
  | JInt int
  | JFloat real
  | JStr string
  | JArr "json list"
  | JObj "(string \<times> json) list"

text \<open>Python's truth value of an object, as \<^verbatim>\<open>not x\<close> tests it.\<close>

fun truthy :: "json \<Rightarrow> bool" where
  "truthy JNull = False"
| "truthy (JBool b) = b"
| "truthy (JInt n) = (n \<noteq> 0)"
| "truthy (JFloat x) = (x \<noteq> 0)"
| "truthy (JStr s) = (s \<noteq> [])"
| "truthy (JArr xs) = (xs \<noteq> [])"
| "truthy (JObj d) = (d \<noteq> [])"

text \<open>\<^verbatim>\<open>d.get(k)\<close>: the value stored under the key, \<^verbatim>\<open>None\<close> when the key is missing.\<close>

definition dict_get :: "(string \<times> json) list \<Rightarrow> string \<Rightarrow> json" where
  "dict_get d k = (case map_of d k of None \<Rightarrow> JNull | Some v \<Rightarrow> v)"

text \<open>
  \<^verbatim>\<open>d[k] = v\<close>: an existing key keeps its position and gets the new value, a new key is
  appended.
\<close>

fun dict_set :: "(string \<times> json) list \<Rightarrow> string \<Rightarrow> json \<Rightarrow> (string \<times> json) list" where
  "dict_set [] k v = [(k, v)]"
| "dict_set ((k', v') # d) k v = (if k' = k then (k, v) # d else (k', v') # dict_set d k v)"

text \<open>The \<^verbatim>\<open>str\<close> inside a value, if it is one.\<close>

fun as_str :: "json \<Rightarrow> string option" where
  "as_str (JStr s) = Some s"
| "as_str _ = None"

text \<open>The exceptions that occur in the handler.\<close>

datatype exn =
    TypeError
  | JSONDecodeError
  | AttributeError
  | KeyError
  | ParamValidationError
  | ConditionalCheckFailedException
  | StoreError

text \<open>
  \<^verbatim>\<open>json.loads(event.get('body'))\<close>. The parser itself is the standard library's and is a
  parameter \<open>loads\<close> here: the value a text denotes, \<open>None\<close> when the text is not valid
  JSON. An absent body is \<^verbatim>\<open>None\<close>, which \<^verbatim>\<open>json.loads\<close> rejects with a TypeError.
\<close>

definition json_loads :: "(string \<Rightarrow> json option) \<Rightarrow> string option \<Rightarrow> exn + json" where
  "json_loads loads b =
     (case b of
        None \<Rightarrow> Inl TypeError
      | Some s \<Rightarrow> (case loads s of None \<Rightarrow> Inl JSONDecodeError | Some v \<Rightarrow> Inr v))"

section \<open>The store\<close>

text \<open>
  The DynamoDB table behind \<^verbatim>\<open>dynamodb_client\<close>. An item is a list of typed attributes;
  the table is the list of its items, in the order a scan returns them. The table's key is
  the string attribute \<^verbatim>\<open>seatId\<close> (the handler addresses items by
  \<^verbatim>\<open>Key={'seatId': {'S': seat_id}}\<close>).
\<close>

datatype attr = AttrS string | AttrN string | AttrBOOL bool | AttrNULL

type_synonym item = "(string \<times> attr) list"

datatype call = Scan | PutItem | DeleteItem

text \<open>
  The store: the table, the calls the handler has made on the client so far, and the number
  of items, counted from the start of the table, that the store puts into one scan response.
  A response carries at most 1 MB, so a table that does not fit is returned page by page;
  \<open>page_size\<close> is the length of the first page.
\<close>

record store =
  table :: "item list"
  calls :: "call list"
  page_size :: nat

definition key_of :: "item \<Rightarrow> string option" where
  "key_of i = (case map_of i ''seatId'' of Some (AttrS k) \<Rightarrow> Some k | _ \<Rightarrow> None)"

definition get_item :: "item list \<Rightarrow> string \<Rightarrow> item option" where
  "get_item t k = find (\<lambda>i. key_of i = Some k) t"

text \<open>
  The two condition expressions the handler uses, \<^verbatim>\<open>attribute_not_exists(a)\<close> and
  \<^verbatim>\<open>a = :v\<close>, evaluated on the item stored under the key (on no item when there is none:
  then no attribute exists and no comparison holds).
\<close>

datatype condition = AttributeNotExists string | AttributeEquals string attr

fun eval_condition :: "condition \<Rightarrow> item option \<Rightarrow> bool" where
  "eval_condition (AttributeNotExists a) None = True"
| "eval_condition (AttributeNotExists a) (Some i) = (map_of i a = None)"
| "eval_condition (AttributeEquals a v) None = False"
| "eval_condition (AttributeEquals a v) (Some i) = (map_of i a = Some v)"

definition log_call :: "call \<Rightarrow> store \<Rightarrow> store" where
  "log_call c st = st\<lparr>calls := calls st @ [c]\<rparr>"

text \<open>
  The three client calls. \<open>served\<close> says whether the store processes the call; when it
  does not (endpoint unreachable, throttling, a request the service rejects for its size)
  the call raises and the table is as before. A scan returns one page: the \<^verbatim>\<open>Items\<close> of
  the response are the first \<open>page_size\<close> items of the table. Where the rest starts is told
  in \<^verbatim>\<open>LastEvaluatedKey\<close>, which the handler never reads.
\<close>

definition first_page :: "store \<Rightarrow> item list" where
  "first_page st = take (page_size st) (table st)"

definition scan :: "bool \<Rightarrow> store \<Rightarrow> (exn + item list) \<times> store" where
  "scan served st =
     (if served then (Inr (first_page st), log_call Scan st)
      else (Inl StoreError, log_call Scan st))"

definition put_item :: "bool \<Rightarrow> item \<Rightarrow> condition \<Rightarrow> store \<Rightarrow> (exn + unit) \<times> store" where
  "put_item served Item cond st =
     (if \<not> served then (Inl StoreError, log_call PutItem st)
      else (case key_of Item of
              None \<Rightarrow> (Inl StoreError, log_call PutItem st)
            | Some k \<Rightarrow>
                if eval_condition cond (get_item (table st) k)
                then (Inr (), log_call PutItem
                        (st\<lparr>table := filter (\<lambda>i. key_of i \<noteq> Some k) (table st) @ [Item]\<rparr>))
                else (Inl ConditionalCheckFailedException, log_call PutItem st)))"

definition delete_item :: "bool \<Rightarrow> string \<Rightarrow> condition \<Rightarrow> store \<Rightarrow> (exn + unit) \<times> store" where
  "delete_item served k cond st =
     (if \<not> served then (Inl StoreError, log_call DeleteItem st)
      else if eval_condition cond (get_item (table st) k)
      then (Inr (), log_call DeleteItem
              (st\<lparr>table := filter (\<lambda>i. key_of i \<noteq> Some k) (table st)\<rparr>))
      else (Inl ConditionalCheckFailedException, log_call DeleteItem st))"

section \<open>The handler\<close>

record event =
  httpMethod :: "string option"
  path :: "string option"
  req_body :: "string option"

text \<open>
  A response. \<open>body\<close> is the value handed to \<^verbatim>\<open>json.dumps\<close>; the serialisation to text
  is the standard library's and is not part of the model.
\<close>

record response =
  statusCode :: int
  body :: json

text \<open>\<^verbatim>\<open>item[a]['S']\<close>: a KeyError when the attribute is missing or is not a string.\<close>

definition item_S :: "item \<Rightarrow> string \<Rightarrow> exn + string" where
  "item_S i a =
     (case map_of i a of
        None \<Rightarrow> Inl KeyError
      | Some (AttrS s) \<Rightarrow> Inr s
      | Some _ \<Rightarrow> Inl KeyError)"

text \<open>The loop of \<^verbatim>\<open>get_seats\<close> over the scanned items, \<open>seats\<close> being the dict built so far.\<close>

fun seats_loop :: "item list \<Rightarrow> (string \<times> json) list \<Rightarrow> exn + (string \<times> json) list" where
  "seats_loop [] seats = Inr seats"
| "seats_loop (i # is) seats =
     (case item_S i ''seatId'' of
        Inl e \<Rightarrow> Inl e
      | Inr seat_id \<Rightarrow>
          (case item_S i ''reservedBy'' of
             Inl e \<Rightarrow> Inl e
           | Inr reserved_by \<Rightarrow>
               seats_loop is (dict_set seats seat_id (JObj [(''reserved_by'', JStr reserved_by)]))))"

definition get_seats :: "bool \<Rightarrow> store \<Rightarrow> response \<times> store" where
  "get_seats served st =
     (case scan served st of
        (Inl e, st') \<Rightarrow>
          (\<lparr>statusCode = 500, body = JObj [(''message'', JStr ''Failed to retrieve seats.'')]\<rparr>, st')
      | (Inr its, st') \<Rightarrow>
          (case seats_loop its [] of
             Inl e \<Rightarrow>
               (\<lparr>statusCode = 500,
                 body = JObj [(''message'', JStr ''Failed to retrieve seats.'')]\<rparr>, st')
           | Inr seats \<Rightarrow> (\<lparr>statusCode = 200, body = JObj seats\<rparr>, st')))"

text \<open>
  \<^verbatim>\<open>reserve_seat(data)\<close>. \<^verbatim>\<open>data.get\<close> raises an AttributeError, outside the
  \<^verbatim>\<open>try\<close>, when \<open>data\<close> is not a dict. The client checks the parameter types before it
  sends anything: \<^verbatim>\<open>{'S': v}\<close> with \<open>v\<close> not a \<^verbatim>\<open>str\<close> raises a
  ParamValidationError, which the \<^verbatim>\<open>except Exception\<close> clause answers like any other
  failure of the call.
\<close>

definition reserve_seat :: "bool \<Rightarrow> json \<Rightarrow> store \<Rightarrow> (exn + response) \<times> store" where
  "reserve_seat served data st =
     (case data of
        JObj d \<Rightarrow>
          (let seat_id = dict_get d ''seatId''; user_id = dict_get d ''userId'' in
           if \<not> truthy seat_id \<or> \<not> truthy user_id
           then (Inr \<lparr>statusCode = 400,
                      body = JObj [(''message'', JStr ''Seat ID and User ID are required.'')]\<rparr>, st)
           else
             (case (as_str seat_id, as_str user_id) of
                (Some s, Some u) \<Rightarrow>
                  (case put_item served [(''seatId'', AttrS s), (''reservedBy'', AttrS u)]
                          (AttributeNotExists ''seatId'') st of
                     (Inr _, st') \<Rightarrow>
                       (Inr \<lparr>statusCode = 200,
                             body = JObj [(''message'',
                                      JStr (''Seat '' @ s @ '' reserved successfully.''))]\<rparr>, st')
                   | (Inl ConditionalCheckFailedException, st') \<Rightarrow>
                       (Inr \<lparr>statusCode = 409,
                             body = JObj [(''message'',
                                      JStr (''Seat '' @ s @ '' is already reserved.''))]\<rparr>, st')
                   | (Inl _, st') \<Rightarrow>
                       (Inr \<lparr>statusCode = 500,
                             body = JObj [(''message'',
                                      JStr ''An error occurred during reservation.'')]\<rparr>, st'))
              | _ \<Rightarrow>
                  (Inr \<lparr>statusCode = 500,
                        body = JObj [(''message'', JStr ''An error occurred during reservation.'')]\<rparr>,
                   log_call PutItem st)))
      | _ \<Rightarrow> (Inl AttributeError, st))"

definition cancel_seat :: "bool \<Rightarrow> json \<Rightarrow> store \<Rightarrow> (exn + response) \<times> store" where
  "cancel_seat served data st =
     (case data of
        JObj d \<Rightarrow>
          (let seat_id = dict_get d ''seatId''; user_id = dict_get d ''userId'' in
           if \<not> truthy seat_id \<or> \<not> truthy user_id
           then (Inr \<lparr>statusCode = 400,
                      body = JObj [(''message'', JStr ''Seat ID and User ID are required.'')]\<rparr>, st)
           else
             (case (as_str seat_id, as_str user_id) of
                (Some s, Some u) \<Rightarrow>
                  (case delete_item served s (AttributeEquals ''reservedBy'' (AttrS u)) st of
                     (Inr _, st') \<Rightarrow>
                       (Inr \<lparr>statusCode = 200,
                             body = JObj [(''message'',
                                      JStr (''Reservation for seat '' @ s @ '' canceled.''))]\<rparr>, st')
                   | (Inl ConditionalCheckFailedException, st') \<Rightarrow>
                       (Inr \<lparr>statusCode = 400,
                             body = JObj [(''message'',
                                      JStr ''You cannot cancel this reservation as it does not belong to you.'')]\<rparr>,
                        st')
                   | (Inl _, st') \<Rightarrow>
                       (Inr \<lparr>statusCode = 500,
                             body = JObj [(''message'', JStr ''An error occurred while canceling.'')]\<rparr>,
                        st'))
              | _ \<Rightarrow>
                  (Inr \<lparr>statusCode = 500,
                        body = JObj [(''message'', JStr ''An error occurred while canceling.'')]\<rparr>,
                   log_call DeleteItem st)))
      | _ \<Rightarrow> (Inl AttributeError, st))"

text \<open>The body of the \<^verbatim>\<open>try\<close> block of \<^verbatim>\<open>handle_request\<close>: the routing.\<close>

definition dispatch ::
  "(string \<Rightarrow> json option) \<Rightarrow> bool \<Rightarrow> event \<Rightarrow> store \<Rightarrow> (exn + response) \<times> store" where
  "dispatch loads served ev st =
     (let http_method = httpMethod ev; p = path ev in
      if http_method = Some ''GET'' \<and> p = Some ''/seats''
      then (case get_seats served st of (r, st') \<Rightarrow> (Inr r, st'))
      else if http_method = Some ''POST'' \<and> p = Some ''/reserve''
      then (case json_loads loads (req_body ev) of
              Inl e \<Rightarrow> (Inl e, st)
            | Inr data \<Rightarrow> reserve_seat served data st)
      else if http_method = Some ''POST'' \<and> p = Some ''/cancel''
      then (case json_loads loads (req_body ev) of
              Inl e \<Rightarrow> (Inl e, st)
            | Inr data \<Rightarrow> cancel_seat served data st)
      else (Inr \<lparr>statusCode = 404, body = JObj [(''message'', JStr ''Not Found'')]\<rparr>, st))"

text \<open>
  \<^verbatim>\<open>handle_request(event, context)\<close>: the routing under its \<^verbatim>\<open>except Exception\<close>.
  The \<open>context\<close> argument is never read, and the \<^verbatim>\<open>print\<close> calls only write to the log;
  neither is in the model.
\<close>

definition handle_request ::
  "(string \<Rightarrow> json option) \<Rightarrow> bool \<Rightarrow> event \<Rightarrow> store \<Rightarrow> response \<times> store" where
  "handle_request loads served ev st =
     (case dispatch loads served ev st of
        (Inl e, st') \<Rightarrow>
          (\<lparr>statusCode = 500,
            body = JObj [(''message'', JStr ''An internal error occurred.'')]\<rparr>, st')
      | (Inr r, st') \<Rightarrow> (r, st'))"

section \<open>Observations on the store\<close>

text \<open>The owner recorded in an item: its string attribute \<^verbatim>\<open>reservedBy\<close>.\<close>

definition owner_of :: "item \<Rightarrow> string option" where
  "owner_of i = (case map_of i ''reservedBy'' of Some (AttrS u) \<Rightarrow> Some u | _ \<Rightarrow> None)"

text \<open>The \<open>reserved_by\<close> of a seat: the owner recorded in the item stored under the key.\<close>

definition reserved_by :: "item list \<Rightarrow> string \<Rightarrow> string option" where
  "reserved_by t k = (case get_item t k of None \<Rightarrow> None | Some i \<Rightarrow> owner_of i)"

text \<open>A well-formed record carries a string \<^verbatim>\<open>seatId\<close> and a string \<^verbatim>\<open>reservedBy\<close>.\<close>

definition well_formed :: "item \<Rightarrow> bool" where
  "well_formed i = (key_of i \<noteq> None \<and> owner_of i \<noteq> None)"

text \<open>No two items of the table share a key.\<close>

definition unique_keys :: "item list \<Rightarrow> bool" where
  "unique_keys t = distinct (map key_of t)"

text \<open>
  A request is a reserve (a cancel) of seat \<open>k\<close> for user \<open>u\<close>: it is routed to the handler
  and its body parses to a dict holding these two strings.
\<close>

definition reserve_request ::
  "(string \<Rightarrow> json option) \<Rightarrow> event \<Rightarrow> string \<Rightarrow> string \<Rightarrow> bool" where
  "reserve_request loads ev k u =
     (httpMethod ev = Some ''POST'' \<and> path ev = Some ''/reserve'' \<and>
      (\<exists>d. json_loads loads (req_body ev) = Inr (JObj d) \<and>
           dict_get d ''seatId'' = JStr k \<and> dict_get d ''userId'' = JStr u))"

definition cancel_request ::
  "(string \<Rightarrow> json option) \<Rightarrow> event \<Rightarrow> string \<Rightarrow> string \<Rightarrow> bool" where
  "cancel_request loads ev k u =
     (httpMethod ev = Some ''POST'' \<and> path ev = Some ''/cancel'' \<and>
      (\<exists>d. json_loads loads (req_body ev) = Inr (JObj d) \<and>
           dict_get d ''seatId'' = JStr k \<and> dict_get d ''userId'' = JStr u))"

section \<open>Lookups in the table\<close>

lemma get_item_None_iff: "get_item t k = None \<longleftrightarrow> (\<forall>i\<in>set t. key_of i \<noteq> Some k)"
  by (auto simp: get_item_def find_None_iff)

lemma get_item_SomeD: "get_item t k = Some i \<Longrightarrow> i \<in> set t \<and> key_of i = Some k"
  by (auto simp: get_item_def find_Some_iff)

lemma filter_absent: "get_item t k = None \<Longrightarrow> filter (\<lambda>i. key_of i \<noteq> Some k) t = t"
  by (simp add: get_item_None_iff)

lemma get_item_filter:
  "get_item (filter (\<lambda>i. key_of i \<noteq> Some k) t) k' = (if k' = k then None else get_item t k')"
  by (induction t) (auto simp: get_item_def)

lemma get_item_append:
  "get_item (t @ [i]) k =
     (case get_item t k of Some j \<Rightarrow> Some j | None \<Rightarrow> if key_of i = Some k then Some i else None)"
  by (induction t) (auto simp: get_item_def)

lemma key_of_record: "key_of ((''seatId'', AttrS s) # r) = Some s"
  by (simp add: key_of_def)

lemma owner_of_eq: "owner_of i = Some u \<longleftrightarrow> map_of i ''reservedBy'' = Some (AttrS u)"
  by (auto simp: owner_of_def split: option.splits attr.splits)

lemma seat_present:
  assumes "get_item t s = Some i"
  shows "map_of i ''seatId'' \<noteq> None"
  using get_item_SomeD [OF assms] by (auto simp: key_of_def split: option.splits)

section \<open>Validation\<close>

lemma reserve_seat_invalid:
  assumes "\<not> truthy (dict_get d ''seatId'') \<or> \<not> truthy (dict_get d ''userId'')"
  shows "reserve_seat served (JObj d) st =
           (Inr \<lparr>statusCode = 400,
                 body = JObj [(''message'', JStr ''Seat ID and User ID are required.'')]\<rparr>, st)"
  using assms by (auto simp: reserve_seat_def Let_def)

lemma cancel_seat_invalid:
  assumes "\<not> truthy (dict_get d ''seatId'') \<or> \<not> truthy (dict_get d ''userId'')"
  shows "cancel_seat served (JObj d) st =
           (Inr \<lparr>statusCode = 400,
                 body = JObj [(''message'', JStr ''Seat ID and User ID are required.'')]\<rparr>, st)"
  using assms by (auto simp: cancel_seat_def Let_def)

lemma dispatch_post:
  assumes "httpMethod ev = Some ''POST''"
  shows "path ev = Some ''/reserve'' \<Longrightarrow> dispatch loads served ev st =
           (case json_loads loads (req_body ev) of
              Inl e \<Rightarrow> (Inl e, st) | Inr data \<Rightarrow> reserve_seat served data st)"
    and "path ev = Some ''/cancel'' \<Longrightarrow> dispatch loads served ev st =
           (case json_loads loads (req_body ev) of
              Inl e \<Rightarrow> (Inl e, st) | Inr data \<Rightarrow> cancel_seat served data st)"
  using assms by (simp_all add: dispatch_def)

lemma invalid_request_400:
  assumes "httpMethod ev = Some ''POST''"
    and "path ev = Some ''/reserve'' \<or> path ev = Some ''/cancel''"
    and "json_loads loads (req_body ev) = Inr (JObj d)"
    and "\<not> truthy (dict_get d ''seatId'') \<or> \<not> truthy (dict_get d ''userId'')"
  shows "handle_request loads served ev st =
           (\<lparr>statusCode = 400,
             body = JObj [(''message'', JStr ''Seat ID and User ID are required.'')]\<rparr>, st)"
  using assms(2)
proof
  assume "path ev = Some ''/reserve''"
  then show ?thesis
    using assms(1,3) reserve_seat_invalid [OF assms(4)]
    by (simp add: handle_request_def dispatch_post)
next
  assume "path ev = Some ''/cancel''"
  then show ?thesis
    using assms(1,3) cancel_seat_invalid [OF assms(4)]
    by (simp add: handle_request_def dispatch_post)
qed

text \<open>
  C6: a reserve or cancel request whose JSON object lacks \<^verbatim>\<open>seatId\<close> or \<^verbatim>\<open>userId\<close> is
  answered 400 with the message "Seat ID and User ID are required."; the store comes back as
  it was, table and call log alike, so no store operation was issued (and the answer does
  not depend on whether the store would have served one).
\<close>

theorem missing_field_400:
  assumes "httpMethod ev = Some ''POST''"
    and "path ev = Some ''/reserve'' \<or> path ev = Some ''/cancel''"
    and "req_body ev = Some b" and "loads b = Some (JObj d)"
    and "map_of d ''seatId'' = None \<or> map_of d ''userId'' = None"
  shows "handle_request loads served ev st =
           (\<lparr>statusCode = 400,
             body = JObj [(''message'', JStr ''Seat ID and User ID are required.'')]\<rparr>, st)"
proof -
  have inv: "\<not> truthy (dict_get d ''seatId'') \<or> \<not> truthy (dict_get d ''userId'')"
    using assms(5) by (auto simp: dict_get_def)
  have parsed: "json_loads loads (req_body ev) = Inr (JObj d)"
    using assms(3,4) by (simp add: json_loads_def)
  show ?thesis
    by (rule invalid_request_400 [OF assms(1,2) parsed inv])
qed

theorem missing_field_400_witness:
  "handle_request (\<lambda>s. if s = ''{}'' then Some (JObj []) else None) False
     \<lparr>httpMethod = Some ''POST'', path = Some ''/cancel'', req_body = Some ''{}''\<rparr>
     \<lparr>table = [], calls = [], page_size = 10\<rparr> =
   (\<lparr>statusCode = 400,
     body = JObj [(''message'', JStr ''Seat ID and User ID are required.'')]\<rparr>,
    \<lparr>table = [], calls = [], page_size = 10\<rparr>)"
  using missing_field_400
    [of "\<lparr>httpMethod = Some ''POST'', path = Some ''/cancel'', req_body = Some ''{}''\<rparr>"
        "''{}''" "\<lambda>s. if s = ''{}'' then Some (JObj []) else None" "[]" False
        "\<lparr>table = [], calls = [], page_size = 10\<rparr>"]
  by simp

section \<open>Routing\<close>

text \<open>
  C7: a request whose method and path are none of GET /seats, POST /reserve and
  POST /cancel is answered 404 with the body {"message": "Not Found"}, and the store comes
  back as it was, with no call made on it.
\<close>

theorem unknown_route_404:
  assumes "\<not> (httpMethod ev = Some ''GET'' \<and> path ev = Some ''/seats'')"
    and "\<not> (httpMethod ev = Some ''POST'' \<and> path ev = Some ''/reserve'')"
    and "\<not> (httpMethod ev = Some ''POST'' \<and> path ev = Some ''/cancel'')"
  shows "handle_request loads served ev st =
           (\<lparr>statusCode = 404, body = JObj [(''message'', JStr ''Not Found'')]\<rparr>, st)"
  using assms by (auto simp: handle_request_def dispatch_def)

theorem unknown_route_404_witness:
  "handle_request (\<lambda>s. None) True
     \<lparr>httpMethod = Some ''DELETE'', path = Some ''/seats'', req_body = None\<rparr>
     \<lparr>table = [[(''seatId'', AttrS ''A1''), (''reservedBy'', AttrS ''u1'')]], calls = [], page_size = 10\<rparr> =
   (\<lparr>statusCode = 404, body = JObj [(''message'', JStr ''Not Found'')]\<rparr>,
    \<lparr>table = [[(''seatId'', AttrS ''A1''), (''reservedBy'', AttrS ''u1'')]], calls = [], page_size = 10\<rparr>)"
  using unknown_route_404
    [of "\<lparr>httpMethod = Some ''DELETE'', path = Some ''/seats'', req_body = None\<rparr>"
        "\<lambda>s. None" True
        "\<lparr>table = [[(''seatId'', AttrS ''A1''), (''reservedBy'', AttrS ''u1'')]], calls = [], page_size = 10\<rparr>"]
  by simp

section \<open>Reserving\<close>

lemma reserve_seat_valid:
  assumes "dict_get d ''seatId'' = JStr s" and "s \<noteq> []"
    and "dict_get d ''userId'' = JStr u" and "u \<noteq> []"
  shows "reserve_seat served (JObj d) st =
     (case put_item served [(''seatId'', AttrS s), (''reservedBy'', AttrS u)]
             (AttributeNotExists ''seatId'') st of
        (Inr _, st') \<Rightarrow>
          (Inr \<lparr>statusCode = 200,
                body = JObj [(''message'', JStr (''Seat '' @ s @ '' reserved successfully.''))]\<rparr>, st')
      | (Inl ConditionalCheckFailedException, st') \<Rightarrow>
          (Inr \<lparr>statusCode = 409,
                body = JObj [(''message'', JStr (''Seat '' @ s @ '' is already reserved.''))]\<rparr>, st')
      | (Inl _, st') \<Rightarrow>
          (Inr \<lparr>statusCode = 500,
                body = JObj [(''message'', JStr ''An error occurred during reservation.'')]\<rparr>, st'))"
  using assms by (simp add: reserve_seat_def)

lemma put_item_absent:
  assumes "get_item (table st) s = None"
  shows "put_item True ((''seatId'', AttrS s) # r) (AttributeNotExists ''seatId'') st =
           (Inr (), log_call PutItem (st\<lparr>table := table st @ [(''seatId'', AttrS s) # r]\<rparr>))"
  using assms by (simp add: put_item_def filter_absent key_of_record)

lemma put_item_present:
  assumes "get_item (table st) s = Some i"
  shows "put_item True ((''seatId'', AttrS s) # r) (AttributeNotExists ''seatId'') st =
           (Inl ConditionalCheckFailedException, log_call PutItem st)"
  using assms seat_present [OF assms] by (simp add: put_item_def key_of_record)

text \<open>
  C1: a reserve request whose body holds non-empty strings \<^verbatim>\<open>seatId\<close> and \<^verbatim>\<open>userId\<close>,
  on a store that serves the call. If the table holds no item under that seat, the item
  {seatId, reservedBy: userId} is added (it is then the item found under the seat, every
  other seat being as before) and the answer is 200 with "Seat {seatId} reserved
  successfully."; if an item is already there, the answer is 409 with "Seat {seatId} is
  already reserved." and the table is as before. The third outcome of the call, any other
  failure of the store, is answered 500 and is not part of this statement.
\<close>

theorem reserve_seat_outcome:
  assumes "dict_get d ''seatId'' = JStr s" and "s \<noteq> []"
    and "dict_get d ''userId'' = JStr u" and "u \<noteq> []"
  shows "(get_item (table st) s = None \<longrightarrow>
            reserve_seat True (JObj d) st =
              (Inr \<lparr>statusCode = 200,
                    body = JObj [(''message'', JStr (''Seat '' @ s @ '' reserved successfully.''))]\<rparr>,
               log_call PutItem
                 (st\<lparr>table := table st @ [[(''seatId'', AttrS s), (''reservedBy'', AttrS u)]]\<rparr>))
            \<and> (\<forall>k. get_item (table st @ [[(''seatId'', AttrS s), (''reservedBy'', AttrS u)]]) k =
                  (if k = s then Some [(''seatId'', AttrS s), (''reservedBy'', AttrS u)]
                   else get_item (table st) k)))
       \<and> (get_item (table st) s \<noteq> None \<longrightarrow>
            reserve_seat True (JObj d) st =
              (Inr \<lparr>statusCode = 409,
                    body = JObj [(''message'', JStr (''Seat '' @ s @ '' is already reserved.''))]\<rparr>,
               log_call PutItem st)
            \<and> table (log_call PutItem st) = table st)"
proof (intro conjI impI allI)
  assume a: "get_item (table st) s = None"
  show "reserve_seat True (JObj d) st =
          (Inr \<lparr>statusCode = 200,
                body = JObj [(''message'', JStr (''Seat '' @ s @ '' reserved successfully.''))]\<rparr>,
           log_call PutItem
             (st\<lparr>table := table st @ [[(''seatId'', AttrS s), (''reservedBy'', AttrS u)]]\<rparr>))"
    by (simp add: reserve_seat_valid [OF assms] put_item_absent [OF a])
  show "get_item (table st @ [[(''seatId'', AttrS s), (''reservedBy'', AttrS u)]]) k =
          (if k = s then Some [(''seatId'', AttrS s), (''reservedBy'', AttrS u)]
           else get_item (table st) k)" for k
    using a by (auto simp: get_item_append key_of_record split: option.splits)
next
  assume "get_item (table st) s \<noteq> None"
  then obtain i where i: "get_item (table st) s = Some i" by blast
  show "reserve_seat True (JObj d) st =
          (Inr \<lparr>statusCode = 409,
                body = JObj [(''message'', JStr (''Seat '' @ s @ '' is already reserved.''))]\<rparr>,
           log_call PutItem st)"
    by (simp add: reserve_seat_valid [OF assms] put_item_present [OF i])
  show "table (log_call PutItem st) = table st"
    by (simp add: log_call_def)
qed

theorem reserve_seat_outcome_witness:
  "reserve_seat True (JObj [(''seatId'', JStr ''A1''), (''userId'', JStr ''u1'')])
     \<lparr>table = [], calls = [], page_size = 10\<rparr> =
     (Inr \<lparr>statusCode = 200,
           body = JObj [(''message'', JStr ''Seat A1 reserved successfully.'')]\<rparr>,
      \<lparr>table = [[(''seatId'', AttrS ''A1''), (''reservedBy'', AttrS ''u1'')]], calls = [PutItem], page_size = 10\<rparr>)
   \<and> reserve_seat True (JObj [(''seatId'', JStr ''A1''), (''userId'', JStr ''u1'')])
     \<lparr>table = [[(''seatId'', AttrS ''A1''), (''reservedBy'', AttrS ''u2'')]], calls = [], page_size = 10\<rparr> =
     (Inr \<lparr>statusCode = 409,
           body = JObj [(''message'', JStr ''Seat A1 is already reserved.'')]\<rparr>,
      \<lparr>table = [[(''seatId'', AttrS ''A1''), (''reservedBy'', AttrS ''u2'')]], calls = [PutItem], page_size = 10\<rparr>)"
  using reserve_seat_outcome [of "[(''seatId'', JStr ''A1''), (''userId'', JStr ''u1'')]" "''A1''" "''u1''"
          "\<lparr>table = [], calls = [], page_size = 10\<rparr>"]
        reserve_seat_outcome [of "[(''seatId'', JStr ''A1''), (''userId'', JStr ''u1'')]" "''A1''" "''u1''"
          "\<lparr>table = [[(''seatId'', AttrS ''A1''), (''reservedBy'', AttrS ''u2'')]], calls = [], page_size = 10\<rparr>"]
  by (simp add: dict_get_def get_item_def key_of_def log_call_def)

section \<open>Cancelling\<close>

lemma cancel_seat_valid:
  assumes "dict_get d ''seatId'' = JStr s" and "s \<noteq> []"
    and "dict_get d ''userId'' = JStr u" and "u \<noteq> []"
  shows "cancel_seat served (JObj d) st =
     (case delete_item served s (AttributeEquals ''reservedBy'' (AttrS u)) st of
        (Inr _, st') \<Rightarrow>
          (Inr \<lparr>statusCode = 200,
                body = JObj [(''message'', JStr (''Reservation for seat '' @ s @ '' canceled.''))]\<rparr>, st')
      | (Inl ConditionalCheckFailedException, st') \<Rightarrow>
          (Inr \<lparr>statusCode = 400,
                body = JObj [(''message'',
                  JStr ''You cannot cancel this reservation as it does not belong to you.'')]\<rparr>, st')
      | (Inl _, st') \<Rightarrow>
          (Inr \<lparr>statusCode = 500,
                body = JObj [(''message'', JStr ''An error occurred while canceling.'')]\<rparr>, st'))"
  using assms by (simp add: cancel_seat_def)

lemma eval_owned:
  "eval_condition (AttributeEquals ''reservedBy'' (AttrS u)) (get_item t s) \<longleftrightarrow>
     reserved_by t s = Some u"
  by (cases "get_item t s") (simp_all add: reserved_by_def owner_of_eq)

lemma delete_item_served:
  "delete_item True s (AttributeEquals ''reservedBy'' (AttrS u)) st =
     (if reserved_by (table st) s = Some u
      then (Inr (), log_call DeleteItem
              (st\<lparr>table := filter (\<lambda>i. key_of i \<noteq> Some s) (table st)\<rparr>))
      else (Inl ConditionalCheckFailedException, log_call DeleteItem st))"
  by (simp add: delete_item_def eval_owned)

text \<open>
  C2: a cancel request whose body holds non-empty strings \<^verbatim>\<open>seatId\<close> and \<^verbatim>\<open>userId\<close>,
  on a store that serves the call. If the seat's \<open>reserved_by\<close> is the user, the item is
  deleted (every other seat being as before) and the answer is 200; if there is no item
  under the seat or its \<open>reserved_by\<close> is another value, the answer is 400 with "You cannot
  cancel this reservation as it does not belong to you." and the table is as before. So the
  answer is 200 exactly when the seat is reserved by the user.
\<close>

theorem cancel_seat_outcome:
  assumes "dict_get d ''seatId'' = JStr s" and "s \<noteq> []"
    and "dict_get d ''userId'' = JStr u" and "u \<noteq> []"
  shows "(reserved_by (table st) s = Some u \<longrightarrow>
            cancel_seat True (JObj d) st =
              (Inr \<lparr>statusCode = 200,
                    body = JObj [(''message'', JStr (''Reservation for seat '' @ s @ '' canceled.''))]\<rparr>,
               log_call DeleteItem (st\<lparr>table := filter (\<lambda>i. key_of i \<noteq> Some s) (table st)\<rparr>))
            \<and> (\<forall>k. get_item (filter (\<lambda>i. key_of i \<noteq> Some s) (table st)) k =
                  (if k = s then None else get_item (table st) k)))
       \<and> (reserved_by (table st) s \<noteq> Some u \<longrightarrow>
            cancel_seat True (JObj d) st =
              (Inr \<lparr>statusCode = 400,
                    body = JObj [(''message'',
                      JStr ''You cannot cancel this reservation as it does not belong to you.'')]\<rparr>,
               log_call DeleteItem st)
            \<and> table (log_call DeleteItem st) = table st)
       \<and> ((\<exists>b st'. cancel_seat True (JObj d) st = (Inr \<lparr>statusCode = 200, body = b\<rparr>, st'))
            \<longleftrightarrow> reserved_by (table st) s = Some u)"
  by (simp add: cancel_seat_valid [OF assms] delete_item_served get_item_filter log_call_def)

theorem cancel_seat_outcome_witness:
  "cancel_seat True (JObj [(''seatId'', JStr ''A1''), (''userId'', JStr ''u1'')])
     \<lparr>table = [[(''seatId'', AttrS ''A1''), (''reservedBy'', AttrS ''u1'')]], calls = [], page_size = 10\<rparr> =
     (Inr \<lparr>statusCode = 200,
           body = JObj [(''message'', JStr ''Reservation for seat A1 canceled.'')]\<rparr>,
      \<lparr>table = [], calls = [DeleteItem], page_size = 10\<rparr>)
   \<and> cancel_seat True (JObj [(''seatId'', JStr ''A1''), (''userId'', JStr ''u1'')])
     \<lparr>table = [[(''seatId'', AttrS ''A1''), (''reservedBy'', AttrS ''u2'')]], calls = [], page_size = 10\<rparr> =
     (Inr \<lparr>statusCode = 400,
           body = JObj [(''message'',
             JStr ''You cannot cancel this reservation as it does not belong to you.'')]\<rparr>,
      \<lparr>table = [[(''seatId'', AttrS ''A1''), (''reservedBy'', AttrS ''u2'')]], calls = [DeleteItem], page_size = 10\<rparr>)
   \<and> cancel_seat True (JObj [(''seatId'', JStr ''A1''), (''userId'', JStr ''u1'')])
     \<lparr>table = [], calls = [], page_size = 10\<rparr> =
     (Inr \<lparr>statusCode = 400,
           body = JObj [(''message'',
             JStr ''You cannot cancel this reservation as it does not belong to you.'')]\<rparr>,
      \<lparr>table = [], calls = [DeleteItem], page_size = 10\<rparr>)"
  using cancel_seat_outcome [of "[(''seatId'', JStr ''A1''), (''userId'', JStr ''u1'')]" "''A1''" "''u1''"
          "\<lparr>table = [[(''seatId'', AttrS ''A1''), (''reservedBy'', AttrS ''u1'')]], calls = [], page_size = 10\<rparr>"]
        cancel_seat_outcome [of "[(''seatId'', JStr ''A1''), (''userId'', JStr ''u1'')]" "''A1''" "''u1''"
          "\<lparr>table = [[(''seatId'', AttrS ''A1''), (''reservedBy'', AttrS ''u2'')]], calls = [], page_size = 10\<rparr>"]
        cancel_seat_outcome [of "[(''seatId'', JStr ''A1''), (''userId'', JStr ''u1'')]" "''A1''" "''u1''"
          "\<lparr>table = [], calls = [], page_size = 10\<rparr>"]
  by (simp add: dict_get_def get_item_def key_of_def log_call_def reserved_by_def owner_of_def)

section \<open>The effect of a request on the table\<close>

lemma put_item_cases:
  assumes "put_item served it (AttributeNotExists ''seatId'') st = (x, st')"
  shows "table st' = table st \<and> x \<noteq> Inr ()
       \<or> (\<exists>k. served \<and> key_of it = Some k \<and> get_item (table st) k = None \<and> x = Inr () \<and>
              table st' = table st @ [it])"
proof (cases "served \<and> (\<exists>k. key_of it = Some k \<and>
                 eval_condition (AttributeNotExists ''seatId'') (get_item (table st) k))")
  case True
  then obtain k where k: "served" "key_of it = Some k"
      "eval_condition (AttributeNotExists ''seatId'') (get_item (table st) k)" by blast
  have absent: "get_item (table st) k = None"
  proof (cases "get_item (table st) k")
    case None then show ?thesis .
  next
    case (Some i)
    with k(3) seat_present [OF Some] show ?thesis by simp
  qed
  with assms k show ?thesis
    by (auto simp: put_item_def log_call_def filter_absent)
next
  case False
  with assms show ?thesis
    by (auto simp: put_item_def log_call_def split: option.splits if_splits)
qed

lemma delete_item_cases:
  assumes "delete_item served k (AttributeEquals ''reservedBy'' (AttrS u)) st = (x, st')"
  shows "table st' = table st \<and> x \<noteq> Inr ()
       \<or> (served \<and> reserved_by (table st) k = Some u \<and> x = Inr () \<and>
            table st' = filter (\<lambda>i. key_of i \<noteq> Some k) (table st))"
  using assms by (auto simp: delete_item_def eval_owned log_call_def split: if_splits)

lemma reserve_seat_cases:
  assumes "reserve_seat served data st = (x, st')"
  shows "table st' = table st
       \<or> (\<exists>d k u b. data = JObj d \<and> dict_get d ''seatId'' = JStr k \<and>
              dict_get d ''userId'' = JStr u \<and> get_item (table st) k = None \<and>
              x = Inr \<lparr>statusCode = 200, body = b\<rparr> \<and>
              table st' = table st @ [[(''seatId'', AttrS k), (''reservedBy'', AttrS u)]])"
proof (cases "\<exists>d k u. data = JObj d \<and> dict_get d ''seatId'' = JStr k \<and> k \<noteq> [] \<and>
                dict_get d ''userId'' = JStr u \<and> u \<noteq> []")
  case True
  then obtain d k u where d: "data = JObj d" "dict_get d ''seatId'' = JStr k" "k \<noteq> []"
      "dict_get d ''userId'' = JStr u" "u \<noteq> []" by blast
  obtain y st1 where p: "put_item served [(''seatId'', AttrS k), (''reservedBy'', AttrS u)]
             (AttributeNotExists ''seatId'') st = (y, st1)" by (cases "put_item served [(''seatId'', AttrS k), (''reservedBy'', AttrS u)]
             (AttributeNotExists ''seatId'') st")
  from put_item_cases [OF p] show ?thesis
  proof
    assume "table st1 = table st \<and> y \<noteq> Inr ()"
    with assms p d have "table st' = table st"
      by (auto simp: reserve_seat_valid split: sum.splits exn.splits)
    then show ?thesis ..
  next
    assume "\<exists>k'. served \<and> key_of [(''seatId'', AttrS k), (''reservedBy'', AttrS u)] = Some k' \<and>
              get_item (table st) k' = None \<and> y = Inr () \<and>
              table st1 = table st @ [[(''seatId'', AttrS k), (''reservedBy'', AttrS u)]]"
    then have "get_item (table st) k = None" "y = Inr ()"
      "table st1 = table st @ [[(''seatId'', AttrS k), (''reservedBy'', AttrS u)]]"
      by (auto simp: key_of_record)
    with assms p d show ?thesis
      by (auto simp: reserve_seat_valid)
  qed
next
  case False
  with assms show ?thesis
    by (cases data)
       (auto simp: reserve_seat_def Let_def log_call_def split: if_splits option.splits
             elim!: as_str.elims)
qed

lemma cancel_seat_cases:
  assumes "cancel_seat served data st = (x, st')"
  shows "table st' = table st
       \<or> (\<exists>d k u b. data = JObj d \<and> dict_get d ''seatId'' = JStr k \<and>
              dict_get d ''userId'' = JStr u \<and> reserved_by (table st) k = Some u \<and>
              x = Inr \<lparr>statusCode = 200, body = b\<rparr> \<and>
              table st' = filter (\<lambda>i. key_of i \<noteq> Some k) (table st))"
proof (cases "\<exists>d k u. data = JObj d \<and> dict_get d ''seatId'' = JStr k \<and> k \<noteq> [] \<and>
                dict_get d ''userId'' = JStr u \<and> u \<noteq> []")
  case True
  then obtain d k u where d: "data = JObj d" "dict_get d ''seatId'' = JStr k" "k \<noteq> []"
      "dict_get d ''userId'' = JStr u" "u \<noteq> []" by blast
  obtain y st1 where p: "delete_item served k (AttributeEquals ''reservedBy'' (AttrS u)) st = (y, st1)"
    by (cases "delete_item served k (AttributeEquals ''reservedBy'' (AttrS u)) st")
  from delete_item_cases [OF p] show ?thesis
  proof
    assume "table st1 = table st \<and> y \<noteq> Inr ()"
    with assms p d have "table st' = table st"
      by (auto simp: cancel_seat_valid split: sum.splits exn.splits)
    then show ?thesis ..
  next
    assume "served \<and> reserved_by (table st) k = Some u \<and> y = Inr () \<and>
            table st1 = filter (\<lambda>i. key_of i \<noteq> Some k) (table st)"
    with assms p d show ?thesis
      by (auto simp: cancel_seat_valid)
  qed
next
  case False
  with assms show ?thesis
    by (cases data)
       (auto simp: cancel_seat_def Let_def log_call_def split: if_splits option.splits
             elim!: as_str.elims)
qed

lemma get_seats_table: "table (snd (get_seats served st)) = table st"
  by (simp add: get_seats_def scan_def log_call_def split: sum.splits)

lemma handle_request_cases:
  assumes "handle_request loads served ev st = (r, st')"
  shows "table st' = table st
       \<or> (\<exists>k u. reserve_request loads ev k u \<and> get_item (table st) k = None \<and>
              statusCode r = 200 \<and>
              table st' = table st @ [[(''seatId'', AttrS k), (''reservedBy'', AttrS u)]])
       \<or> (\<exists>k u. cancel_request loads ev k u \<and> reserved_by (table st) k = Some u \<and>
              statusCode r = 200 \<and>
              table st' = filter (\<lambda>i. key_of i \<noteq> Some k) (table st))"
proof -
  consider (list) "httpMethod ev = Some ''GET'' \<and> path ev = Some ''/seats''"
    | (reserve) "httpMethod ev = Some ''POST''" "path ev = Some ''/reserve''"
    | (cancel) "httpMethod ev = Some ''POST''" "path ev = Some ''/cancel''"
    | (other) "\<not> (httpMethod ev = Some ''GET'' \<and> path ev = Some ''/seats'')"
        "\<not> (httpMethod ev = Some ''POST'' \<and> path ev = Some ''/reserve'')"
        "\<not> (httpMethod ev = Some ''POST'' \<and> path ev = Some ''/cancel'')"
    by blast
  then show ?thesis
  proof cases
    case list
    with assms get_seats_table [of served st] have "table st' = table st"
      by (auto simp: handle_request_def dispatch_def split: prod.splits)
    then show ?thesis ..
  next
    case reserve
    show ?thesis
    proof (cases "json_loads loads (req_body ev)")
      case (Inl e)
      with assms reserve have "table st' = table st"
        by (auto simp: handle_request_def dispatch_post)
      then show ?thesis ..
    next
      case (Inr data)
      obtain x st1 where x: "reserve_seat served data st = (x, st1)"
        by (cases "reserve_seat served data st")
      with assms reserve Inr have st1: "st1 = st'"
        and r: "\<And>y. x = Inr y \<Longrightarrow> y = r"
        by (auto simp: handle_request_def dispatch_post split: sum.splits)
      from reserve_seat_cases [OF x] show ?thesis
      proof
        assume "table st1 = table st"
        then show ?thesis using st1 by simp
      next
        assume "\<exists>d k u b. data = JObj d \<and> dict_get d ''seatId'' = JStr k \<and>
              dict_get d ''userId'' = JStr u \<and> get_item (table st) k = None \<and>
              x = Inr \<lparr>statusCode = 200, body = b\<rparr> \<and>
              table st1 = table st @ [[(''seatId'', AttrS k), (''reservedBy'', AttrS u)]]"
        then obtain d k u b where *: "data = JObj d" "dict_get d ''seatId'' = JStr k"
            "dict_get d ''userId'' = JStr u" "get_item (table st) k = None"
            "x = Inr \<lparr>statusCode = 200, body = b\<rparr>"
            "table st1 = table st @ [[(''seatId'', AttrS k), (''reservedBy'', AttrS u)]]"
          by blast
        have "reserve_request loads ev k u"
          using reserve Inr * by (auto simp: reserve_request_def)
        moreover have "statusCode r = 200" using r [OF *(5)] by auto
        ultimately show ?thesis using * st1 by blast
      qed
    qed
  next
    case cancel
    show ?thesis
    proof (cases "json_loads loads (req_body ev)")
      case (Inl e)
      with assms cancel have "table st' = table st"
        by (auto simp: handle_request_def dispatch_post)
      then show ?thesis ..
    next
      case (Inr data)
      obtain x st1 where x: "cancel_seat served data st = (x, st1)"
        by (cases "cancel_seat served data st")
      with assms cancel Inr have st1: "st1 = st'"
        and r: "\<And>y. x = Inr y \<Longrightarrow> y = r"
        by (auto simp: handle_request_def dispatch_post split: sum.splits)
      from cancel_seat_cases [OF x] show ?thesis
      proof
        assume "table st1 = table st"
        then show ?thesis using st1 by simp
      next
        assume "\<exists>d k u b. data = JObj d \<and> dict_get d ''seatId'' = JStr k \<and>
              dict_get d ''userId'' = JStr u \<and> reserved_by (table st) k = Some u \<and>
              x = Inr \<lparr>statusCode = 200, body = b\<rparr> \<and>
              table st1 = filter (\<lambda>i. key_of i \<noteq> Some k) (table st)"
        then obtain d k u b where *: "data = JObj d" "dict_get d ''seatId'' = JStr k"
            "dict_get d ''userId'' = JStr u" "reserved_by (table st) k = Some u"
            "x = Inr \<lparr>statusCode = 200, body = b\<rparr>"
            "table st1 = filter (\<lambda>i. key_of i \<noteq> Some k) (table st)"
          by blast
        have "cancel_request loads ev k u"
          using cancel Inr * by (auto simp: cancel_request_def)
        moreover have "statusCode r = 200" using r [OF *(5)] by auto
        ultimately show ?thesis using * st1 by blast
      qed
    qed
  next
    case other
    with assms have "table st' = table st"
      by (auto simp: handle_request_def dispatch_def)
    then show ?thesis ..
  qed
qed

section \<open>Lifecycle of a record\<close>

lemma unique_keys_append:
  assumes "unique_keys t" and "get_item t k = None" and "key_of it = Some k"
  shows "unique_keys (t @ [it])"
  using assms by (auto simp: unique_keys_def get_item_None_iff)

lemma unique_keys_filter: "unique_keys t \<Longrightarrow> unique_keys (filter P t)"
  by (simp add: unique_keys_def distinct_map_filter)

text \<open>
  C3: whatever the request (list, reserve, cancel, unmatched route, failing or not), the
  keys of the table stay unique, so a seat has at most one \<open>reserved_by\<close>; an item appears
  under a seat only through a reserve of that seat answered 200, on a seat that had none; an
  item disappears only through a cancel of that seat answered 200, by the user recorded in
  it; and an item that is still there afterwards is the item that was there before.
\<close>

theorem lifecycle_invariant:
  assumes "unique_keys (table st)" and "handle_request loads served ev st = (r, st')"
  shows "unique_keys (table st')
       \<and> (\<forall>k. get_item (table st) k = None \<and> get_item (table st') k \<noteq> None \<longrightarrow>
              (\<exists>u. reserve_request loads ev k u \<and> statusCode r = 200 \<and>
                   get_item (table st') k =
                     Some [(''seatId'', AttrS k), (''reservedBy'', AttrS u)]))
       \<and> (\<forall>k. get_item (table st) k \<noteq> None \<and> get_item (table st') k = None \<longrightarrow>
              (\<exists>u. cancel_request loads ev k u \<and> statusCode r = 200 \<and>
                   reserved_by (table st) k = Some u))
       \<and> (\<forall>k i. get_item (table st) k = Some i \<longrightarrow>
              get_item (table st') k = None \<or> get_item (table st') k = Some i)"
proof -
  from handle_request_cases [OF assms(2)]
  consider (same) "table st' = table st"
    | (created) k u where "reserve_request loads ev k u" "get_item (table st) k = None"
        "statusCode r = 200"
        "table st' = table st @ [[(''seatId'', AttrS k), (''reservedBy'', AttrS u)]]"
    | (destroyed) k u where "cancel_request loads ev k u" "reserved_by (table st) k = Some u"
        "statusCode r = 200" "table st' = filter (\<lambda>i. key_of i \<noteq> Some k) (table st)"
    by blast
  then show ?thesis
  proof cases
    case same
    with assms(1) show ?thesis by auto
  next
    case created
    have "unique_keys (table st')"
      using created(4) unique_keys_append [OF assms(1) created(2)]
      by (simp add: key_of_record)
    moreover have "get_item (table st') k' =
        (case get_item (table st) k' of Some j \<Rightarrow> Some j
         | None \<Rightarrow> if k = k' then Some [(''seatId'', AttrS k), (''reservedBy'', AttrS u)] else None)"
      for k'
      by (simp add: created(4) get_item_append key_of_record)
    ultimately show ?thesis
      using created(1,3) by (auto split: option.splits if_splits)
  next
    case destroyed
    have "unique_keys (table st')"
      using destroyed(4) unique_keys_filter [OF assms(1)] by simp
    moreover have "get_item (table st') k' = (if k' = k then None else get_item (table st) k')"
      for k'
      by (simp add: destroyed(4) get_item_filter)
    ultimately show ?thesis
      using destroyed(1,2,3) by (auto split: if_splits)
  qed
qed


theorem lifecycle_invariant_witness:
  \<open>handle_request
     (\<lambda>s. if s = ''{"seatId": "A1", "userId": "u1"}''
           then Some (JObj [(''seatId'', JStr ''A1''), (''userId'', JStr ''u1'')]) else None)
     True
     \<lparr>httpMethod = Some ''POST'', path = Some ''/reserve'',
      req_body = Some ''{"seatId": "A1", "userId": "u1"}''\<rparr>
     \<lparr>table = [[(''seatId'', AttrS ''B2''), (''reservedBy'', AttrS ''u2'')]], calls = [], page_size = 10\<rparr> =
     (\<lparr>statusCode = 200, body = JObj [(''message'', JStr ''Seat A1 reserved successfully.'')]\<rparr>,
      \<lparr>table = [[(''seatId'', AttrS ''B2''), (''reservedBy'', AttrS ''u2'')],
                [(''seatId'', AttrS ''A1''), (''reservedBy'', AttrS ''u1'')]],
       calls = [PutItem], page_size = 10\<rparr>)
   \<and> unique_keys [[(''seatId'', AttrS ''B2''), (''reservedBy'', AttrS ''u2'')],
                  [(''seatId'', AttrS ''A1''), (''reservedBy'', AttrS ''u1'')]]\<close>
proof -
  let ?loads = \<open>\<lambda>s. if s = ''{"seatId": "A1", "userId": "u1"}''
           then Some (JObj [(''seatId'', JStr ''A1''), (''userId'', JStr ''u1'')]) else None\<close>
  let ?ev = \<open>\<lparr>httpMethod = Some ''POST'', path = Some ''/reserve'',
      req_body = Some ''{"seatId": "A1", "userId": "u1"}''\<rparr>\<close>
  let ?st = "\<lparr>table = [[(''seatId'', AttrS ''B2''), (''reservedBy'', AttrS ''u2'')]], calls = [], page_size = 10\<rparr>"
  let ?r = "\<lparr>statusCode = 200, body = JObj [(''message'', JStr ''Seat A1 reserved successfully.'')]\<rparr>"
  let ?st' = "\<lparr>table = [[(''seatId'', AttrS ''B2''), (''reservedBy'', AttrS ''u2'')],
                [(''seatId'', AttrS ''A1''), (''reservedBy'', AttrS ''u1'')]],
       calls = [PutItem], page_size = 10\<rparr>"
  have u: "unique_keys (table ?st)"
    by (simp add: unique_keys_def)
  have h: "handle_request ?loads True ?ev ?st = (?r, ?st')"
    by (simp add: handle_request_def dispatch_def json_loads_def reserve_seat_def dict_get_def
          put_item_def key_of_def get_item_def log_call_def)
  from lifecycle_invariant [OF u h] h show ?thesis by simp
qed

lemma well_formed_record: "well_formed [(''seatId'', AttrS s), (''reservedBy'', AttrS u)]"
  by (simp add: well_formed_def key_of_def owner_of_def)

text \<open>The handler only ever stores well-formed records.\<close>

lemma well_formed_preserved:
  assumes "\<forall>i\<in>set (table st). well_formed i"
    and "handle_request loads served ev st = (r, st')"
  shows "\<forall>i\<in>set (table st'). well_formed i"
  using handle_request_cases [OF assms(2)] assms(1)
  by (auto simp: well_formed_record)

section \<open>Listing\<close>










lemma first_page_log_call: "first_page (log_call c st) = first_page st"
  by (simp add: first_page_def log_call_def)







section \<open>Round trip\<close>










section \<open>Failures\<close>

lemma dispatch_raises_iff:
  "dispatch loads served ev st = (Inl e, st') \<longleftrightarrow>
     st' = st \<and> httpMethod ev = Some ''POST'' \<and>
     (path ev = Some ''/reserve'' \<or> path ev = Some ''/cancel'') \<and>
     (json_loads loads (req_body ev) = Inl e \<or>
      (\<exists>v. json_loads loads (req_body ev) = Inr v \<and> (\<forall>d. v \<noteq> JObj d) \<and> e = AttributeError))"
  by (auto simp: dispatch_def reserve_seat_def cancel_seat_def Let_def
           split: prod.splits sum.splits json.splits if_splits option.splits exn.splits)

text \<open>
  C8: when the routing or a handler raises an exception that reaches \<^verbatim>\<open>handle_request\<close>,
  the answer is 500 with the fixed body {"message": "An internal error occurred."}, in
  which nothing of the exception appears; \<^verbatim>\<open>handle_request\<close> itself always returns a
  response.
\<close>

theorem uncaught_exception_500:
  assumes "dispatch loads served ev st = (Inl e, st')"
  shows "handle_request loads served ev st =
           (\<lparr>statusCode = 500, body = JObj [(''message'', JStr ''An internal error occurred.'')]\<rparr>,
            st')"
  using assms by (simp add: handle_request_def)

theorem uncaught_exception_500_witness:
  "dispatch (\<lambda>s. Some (JArr [])) True
     \<lparr>httpMethod = Some ''POST'', path = Some ''/reserve'', req_body = Some ''[]''\<rparr>
     \<lparr>table = [], calls = [], page_size = 10\<rparr> = (Inl AttributeError, \<lparr>table = [], calls = [], page_size = 10\<rparr>)
   \<and> handle_request (\<lambda>s. Some (JArr [])) True
     \<lparr>httpMethod = Some ''POST'', path = Some ''/reserve'', req_body = Some ''[]''\<rparr>
     \<lparr>table = [], calls = [], page_size = 10\<rparr> =
     (\<lparr>statusCode = 500, body = JObj [(''message'', JStr ''An internal error occurred.'')]\<rparr>,
      \<lparr>table = [], calls = [], page_size = 10\<rparr>)"
proof -
  have d: "dispatch (\<lambda>s. Some (JArr [])) True
     \<lparr>httpMethod = Some ''POST'', path = Some ''/reserve'', req_body = Some ''[]''\<rparr>
     \<lparr>table = [], calls = [], page_size = 10\<rparr> = (Inl AttributeError, \<lparr>table = [], calls = [], page_size = 10\<rparr>)"
    by (simp add: dispatch_def json_loads_def reserve_seat_def)
  from d uncaught_exception_500 [OF d] show ?thesis by simp
qed

text \<open>
  C10: a POST to /reserve or /cancel whose body is absent or is not valid JSON is answered
  500 with "An internal error occurred.", not 400, and the store comes back as it was, with
  no call made on it.
\<close>

theorem unparsable_body_500:
  assumes "httpMethod ev = Some ''POST''"
    and "path ev = Some ''/reserve'' \<or> path ev = Some ''/cancel''"
    and "req_body ev = None \<or> (\<exists>b. req_body ev = Some b \<and> loads b = None)"
  shows "handle_request loads served ev st =
           (\<lparr>statusCode = 500, body = JObj [(''message'', JStr ''An internal error occurred.'')]\<rparr>,
            st)"
proof -
  from assms(3) have "\<exists>e. json_loads loads (req_body ev) = Inl e"
    by (auto simp: json_loads_def)
  then obtain e where "json_loads loads (req_body ev) = Inl e" ..
  with assms(1,2) show ?thesis
    by (auto simp: handle_request_def dispatch_post)
qed

theorem unparsable_body_500_witness:
  "handle_request (\<lambda>s. None) True
     \<lparr>httpMethod = Some ''POST'', path = Some ''/reserve'', req_body = None\<rparr>
     \<lparr>table = [], calls = [], page_size = 10\<rparr> =
     (\<lparr>statusCode = 500, body = JObj [(''message'', JStr ''An internal error occurred.'')]\<rparr>,
      \<lparr>table = [], calls = [], page_size = 10\<rparr>)
   \<and> handle_request (\<lambda>s. None) True
     \<lparr>httpMethod = Some ''POST'', path = Some ''/cancel'', req_body = Some ''{seatId''\<rparr>
     \<lparr>table = [], calls = [], page_size = 10\<rparr> =
     (\<lparr>statusCode = 500, body = JObj [(''message'', JStr ''An internal error occurred.'')]\<rparr>,
      \<lparr>table = [], calls = [], page_size = 10\<rparr>)"
  using unparsable_body_500
          [of "\<lparr>httpMethod = Some ''POST'', path = Some ''/reserve'', req_body = None\<rparr>"
              "\<lambda>s. None" True "\<lparr>table = [], calls = [], page_size = 10\<rparr>"]
        unparsable_body_500
          [of "\<lparr>httpMethod = Some ''POST'', path = Some ''/cancel'', req_body = Some ''{seatId''\<rparr>"
              "\<lambda>s. None" True "\<lparr>table = [], calls = [], page_size = 10\<rparr>"]
  by simp

text \<open>
  C9: a reserve or cancel request whose JSON object holds \<^verbatim>\<open>seatId\<close> or \<^verbatim>\<open>userId\<close>
  as the empty string is answered like one that lacks the field: 400 with "Seat ID and User
  ID are required.", the store coming back as it was, with no call made on it.
\<close>

theorem empty_field_400:
  assumes "httpMethod ev = Some ''POST''"
    and "path ev = Some ''/reserve'' \<or> path ev = Some ''/cancel''"
    and "req_body ev = Some b" and "loads b = Some (JObj d)"
    and "map_of d ''seatId'' = Some (JStr []) \<or> map_of d ''userId'' = Some (JStr [])"
  shows "handle_request loads served ev st =
           (\<lparr>statusCode = 400,
             body = JObj [(''message'', JStr ''Seat ID and User ID are required.'')]\<rparr>, st)"
proof -
  have inv: "\<not> truthy (dict_get d ''seatId'') \<or> \<not> truthy (dict_get d ''userId'')"
    using assms(5) by (auto simp: dict_get_def)
  have parsed: "json_loads loads (req_body ev) = Inr (JObj d)"
    using assms(3,4) by (simp add: json_loads_def)
  show ?thesis
    by (rule invalid_request_400 [OF assms(1,2) parsed inv])
qed

theorem empty_field_400_witness:
  \<open>handle_request
     (\<lambda>s. if s = ''{"seatId": "", "userId": "u1"}''
           then Some (JObj [(''seatId'', JStr ''''), (''userId'', JStr ''u1'')]) else None)
     False
     \<lparr>httpMethod = Some ''POST'', path = Some ''/reserve'',
      req_body = Some ''{"seatId": "", "userId": "u1"}''\<rparr>
     \<lparr>table = [], calls = [], page_size = 10\<rparr> =
   (\<lparr>statusCode = 400,
     body = JObj [(''message'', JStr ''Seat ID and User ID are required.'')]\<rparr>,
    \<lparr>table = [], calls = [], page_size = 10\<rparr>)\<close>
  using empty_field_400
    [of \<open>\<lparr>httpMethod = Some ''POST'', path = Some ''/reserve'',
          req_body = Some ''{"seatId": "", "userId": "u1"}''\<rparr>\<close>
        \<open>''{"seatId": "", "userId": "u1"}''\<close>
        \<open>\<lambda>s. if s = ''{"seatId": "", "userId": "u1"}''
           then Some (JObj [(''seatId'', JStr ''''), (''userId'', JStr ''u1'')]) else None\<close>
        "[(''seatId'', JStr ''''), (''userId'', JStr ''u1'')]" False
        "\<lparr>table = [], calls = [], page_size = 10\<rparr>"]
  by simp

end
